theory Spec2Isabelle
  imports Main "HOL-Library.Word" "HOL-Library.Sublist"
begin

section \<open>Strings, errors and rows\<close>

text \<open>
  A JavaScript string is a sequence of UTF-16 code units. String literals of the source
  are ASCII and are written through \<open>js\<close>.
\<close>

type_synonym jsstring = "16 word list"

definition js :: "string \<Rightarrow> jsstring" where
  "js s = map of_char s"

text \<open>The \<open>extensions.code\<close> of a thrown error, and the error with its message.\<close>

datatype err_code =
  UNAUTHENTICATED | FORBIDDEN | NOT_FOUND | VERSION_CONFLICT | BAD_REQUEST | INTEGRITY_ERROR

datatype gql_error = GqlError string err_code

fun code_of :: "gql_error \<Rightarrow> err_code" where
  "code_of (GqlError msg c) = c"

text \<open>The code a resolver's outcome carries: \<open>None\<close> when it returned normally.\<close>

definition thrown :: "gql_error + 'a \<Rightarrow> err_code option" where
  "thrown r = (case r of Inl err \<Rightarrow> Some (code_of err) | Inr v \<Rightarrow> None)"

datatype asset_status = Uploading | Ready | Corrupt

text \<open>
  Rows of the three tables. Column names are the source's; \<open>id\<close> and \<open>size\<close> carry a
  prime, and the ticket's and the share's columns that repeat an asset column carry a
  suffix. Timestamps are milliseconds since the epoch.
\<close>

record asset_row =
  id' :: jsstring
  owner_id :: jsstring
  filename :: jsstring
  mime :: jsstring
  size' :: int
  storage_path :: jsstring
  sha256 :: "jsstring option"
  status :: asset_status
  version :: int
  created_at :: int
  updated_at :: int

record ticket_row =
  asset_id :: jsstring
  user_id :: jsstring
  nonce :: jsstring
  mime_t :: jsstring
  size_t :: int
  storage_path_t :: jsstring
  expires_at :: int
  used :: bool

record share_row =
  asset_id_s :: jsstring
  to_user :: jsstring
  can_download :: bool

record store =
  asset :: "asset_row list"
  upload_ticket :: "ticket_row list"
  asset_share :: "share_row list"

record auth_user =
  user_ident :: jsstring
  email :: "jsstring option"

record Context =
  userId :: "jsstring option"

section \<open>The external collaborators\<close>

text \<open>
  The relational store, the object store, the identity provider and the runtime are not
  part of the repository. The tables are lists of rows with the semantics the client
  calls have on them; everything else a resolver reads from outside is a field of the
  environment: the clock, the random values, the runtime's string functions, the hash,
  the object store's answers, the user directory, and for each kind of store call
  whether it comes back with an error.
\<close>

datatype store_call =
  AssetSelect | AssetInsert | AssetUpdate | AssetDelete
  | TicketSelect | TicketInsert | TicketUpdate
  | ShareUpsert | ShareDelete

record env =
  now :: int
  randomUUID :: jsstring
  randomBytes_hex :: jsstring
  getUTCFullYear :: "int \<Rightarrow> int"
  getUTCMonth :: "int \<Rightarrow> int"
  normalize_NFKC :: "jsstring \<Rightarrow> jsstring"
  toLowerCase :: "jsstring \<Rightarrow> jsstring"
  sha256_hex :: "8 word list \<Rightarrow> jsstring"
  download :: "jsstring \<Rightarrow> 8 word list option"
  createSignedUploadUrl :: "jsstring \<Rightarrow> jsstring option"
  createSignedUrl :: "jsstring \<Rightarrow> int \<Rightarrow> jsstring option"
  listUsers :: "auth_user list option"
  ilike :: "jsstring \<Rightarrow> jsstring \<Rightarrow> bool"
  parse_timestamp :: "jsstring \<Rightarrow> int option"
  store_error :: "store_call \<Rightarrow> bool"

text \<open>\<open>.single()\<close>: the one row of the result, an error unless there is exactly one.\<close>

definition single :: "'a list \<Rightarrow> 'a option" where
  "single rows = (case rows of [r] \<Rightarrow> Some r | _ \<Rightarrow> None)"

definition select_asset :: "env \<Rightarrow> store \<Rightarrow> jsstring \<Rightarrow> asset_row option" where
  "select_asset e s assetId =
     (if store_error e AssetSelect then None
      else single (filter (\<lambda>r. id' r = assetId) (asset s)))"

definition select_ticket :: "env \<Rightarrow> store \<Rightarrow> jsstring \<Rightarrow> ticket_row option" where
  "select_ticket e s assetId =
     (if store_error e TicketSelect then None
      else single (filter (\<lambda>t. asset_id t = assetId) (upload_ticket s)))"

definition insert_asset :: "env \<Rightarrow> store \<Rightarrow> asset_row \<Rightarrow> store option" where
  "insert_asset e s row =
     (if store_error e AssetInsert then None else Some (s\<lparr>asset := asset s @ [row]\<rparr>))"

definition insert_ticket :: "env \<Rightarrow> store \<Rightarrow> ticket_row \<Rightarrow> store option" where
  "insert_ticket e s row =
     (if store_error e TicketInsert then None
      else Some (s\<lparr>upload_ticket := upload_ticket s @ [row]\<rparr>))"

text \<open>An update whose outcome the caller does not look at.\<close>

definition update_asset :: "env \<Rightarrow> store \<Rightarrow> jsstring \<Rightarrow> (asset_row \<Rightarrow> asset_row) \<Rightarrow> store" where
  "update_asset e s assetId f =
     (if store_error e AssetUpdate then s
      else s\<lparr>asset := map (\<lambda>r. if id' r = assetId then f r else r) (asset s)\<rparr>)"

text \<open>
  \<open>.update(...).eq("id", assetId).select("*").single()\<close>: the updated row, and an error
  that leaves the table as it was unless exactly one row is updated.
\<close>

definition update_asset_single ::
  "env \<Rightarrow> store \<Rightarrow> jsstring \<Rightarrow> (asset_row \<Rightarrow> asset_row) \<Rightarrow> (asset_row \<times> store) option" where
  "update_asset_single e s assetId f =
     (if store_error e AssetUpdate then None
      else (case single (map f (filter (\<lambda>r. id' r = assetId) (asset s))) of
              None \<Rightarrow> None
            | Some updated \<Rightarrow>
                Some (updated,
                  s\<lparr>asset := map (\<lambda>r. if id' r = assetId then f r else r) (asset s)\<rparr>)))"

definition update_ticket :: "env \<Rightarrow> store \<Rightarrow> jsstring \<Rightarrow> (ticket_row \<Rightarrow> ticket_row) \<Rightarrow> store" where
  "update_ticket e s assetId f =
     (if store_error e TicketUpdate then s
      else s\<lparr>upload_ticket :=
             map (\<lambda>t. if asset_id t = assetId then f t else t) (upload_ticket s)\<rparr>)"

definition delete_asset :: "env \<Rightarrow> store \<Rightarrow> jsstring \<Rightarrow> store option" where
  "delete_asset e s assetId =
     (if store_error e AssetDelete then None
      else Some (s\<lparr>asset := filter (\<lambda>r. id' r \<noteq> assetId) (asset s)\<rparr>))"

text \<open>\<open>.upsert(row, { onConflict: "asset_id,to_user" })\<close>.\<close>

definition upsert_share :: "env \<Rightarrow> store \<Rightarrow> share_row \<Rightarrow> store option" where
  "upsert_share e s row =
     (if store_error e ShareUpsert then None
      else Some (s\<lparr>asset_share :=
        (if list_ex (\<lambda>r. asset_id_s r = asset_id_s row \<and> to_user r = to_user row) (asset_share s)
         then map (\<lambda>r. if asset_id_s r = asset_id_s row \<and> to_user r = to_user row
                         then row else r) (asset_share s)
         else asset_share s @ [row])\<rparr>))"

definition delete_share :: "env \<Rightarrow> store \<Rightarrow> jsstring \<Rightarrow> jsstring \<Rightarrow> store" where
  "delete_share e s assetId toUserId =
     (if store_error e ShareDelete then s
      else s\<lparr>asset_share :=
             filter (\<lambda>r. \<not> (asset_id_s r = assetId \<and> to_user r = toUserId)) (asset_share s)\<rparr>)"

section \<open>Helpers of the resolvers\<close>

definition ALLOWED_MIME_PREFIXES :: "jsstring list" where
  "ALLOWED_MIME_PREFIXES = [js ''image/'', js ''video/'', js ''application/pdf'']"

definition MAX_SIZE_BYTES :: int where
  "MAX_SIZE_BYTES = 30 * 1024 * 1024"

definition isMimeAllowed :: "jsstring \<Rightarrow> bool" where
  "isMimeAllowed m =
     (if m = js ''application/pdf'' then True
      else list_ex (\<lambda>p. prefix p m) ALLOWED_MIME_PREFIXES)"

text \<open>
  \<open>filename.replace(/[/\\]/g, "_").normalize("NFKC").slice(0, 200)\<close>. The normaliser
  is the runtime's and is a parameter.
\<close>

definition safeFilename :: "(jsstring \<Rightarrow> jsstring) \<Rightarrow> jsstring \<Rightarrow> jsstring" where
  "safeFilename nfkc fname =
     (let base = nfkc (map (\<lambda>c. if c = 0x2F \<or> c = 0x5C then 0x5F else c) fname)
      in take 200 base)"

definition findUserIdByEmail :: "env \<Rightarrow> jsstring \<Rightarrow> jsstring option" where
  "findUserIdByEmail e toEmail =
     (case listUsers e of
        None \<Rightarrow> None
      | Some users \<Rightarrow>
          (case find (\<lambda>u. map_option (toLowerCase e) (email u) = Some (toLowerCase e toEmail)) users of
             None \<Rightarrow> None
           | Some u \<Rightarrow> Some (user_ident u)))"

text \<open>\<open>!v\<close> on a value that is a string or null: null and the empty string.\<close>

definition falsy :: "jsstring option \<Rightarrow> bool" where
  "falsy v = (case v of None \<Rightarrow> True | Some str \<Rightarrow> str = [])"

text \<open>The asset as the resolvers return it.\<close>

record asset_node =
  node_id :: jsstring
  node_filename :: jsstring
  node_mime :: jsstring
  node_size :: int
  node_sha256 :: "jsstring option"
  node_status :: asset_status
  node_version :: int
  createdAt :: int
  updatedAt :: int

definition asset_node_of :: "asset_row \<Rightarrow> asset_node" where
  "asset_node_of r =
     \<lparr>node_id = id' r, node_filename = filename r, node_mime = mime r, node_size = size' r,
      node_sha256 = sha256 r, node_status = status r, node_version = version r,
      createdAt = created_at r, updatedAt = updated_at r\<rparr>"

text \<open>Decimal digits of a number, and \<open>padStart\<close> with a one-unit pad.\<close>

fun digits :: "nat \<Rightarrow> jsstring" where
  "digits n = (if n < 10 then [0x30 + of_nat n] else digits (n div 10) @ [0x30 + of_nat (n mod 10)])"

definition Number_toString :: "int \<Rightarrow> jsstring" where
  "Number_toString n = (if n < 0 then 0x2D # digits (nat (- n)) else digits (nat n))"

definition padStart :: "nat \<Rightarrow> 16 word \<Rightarrow> jsstring \<Rightarrow> jsstring" where
  "padStart n pad str = replicate (n - length str) pad @ str"

section \<open>The resolvers\<close>

text \<open>
  A resolver takes the environment, the request's context, its arguments and the store,
  and gives what it returns or throws together with the store it leaves behind. One
  request reads one clock value. The insert of \<open>createUploadUrl\<close> names eight columns of
  the asset; the others take the table's defaults, which the repository does not hold:
  no hash, and the clock for both timestamps.
\<close>

text \<open>
  The storage path of a new asset:
  \<open>private/${userId}/${year}/${month, two digits}/${assetId}-${safeName}\<close>.
\<close>

definition storagePath_of :: "env \<Rightarrow> jsstring \<Rightarrow> jsstring \<Rightarrow> jsstring \<Rightarrow> jsstring" where
  "storagePath_of e uid assetId safeName =
     js ''private/'' @ uid @ js ''/'' @ Number_toString (getUTCFullYear e (now e))
     @ js ''/'' @ padStart 2 0x30 (Number_toString (getUTCMonth e (now e) + 1))
     @ js ''/'' @ assetId @ js ''-'' @ safeName"

record upload_url_payload =
  assetId_p :: jsstring
  storagePath_p :: jsstring
  uploadUrl :: jsstring
  expiresAt_p :: int
  nonce_p :: jsstring

definition createUploadUrl ::
  "env \<Rightarrow> Context \<Rightarrow> jsstring \<Rightarrow> jsstring \<Rightarrow> int \<Rightarrow> store
     \<Rightarrow> (gql_error + upload_url_payload) \<times> store" where
  "createUploadUrl e ctx fname mime_arg size_arg s =
     (case userId ctx of
        None \<Rightarrow> (Inl (GqlError ''Unauthenticated'' UNAUTHENTICATED), s)
      | Some uid \<Rightarrow>
        if uid = [] then (Inl (GqlError ''Unauthenticated'' UNAUTHENTICATED), s)
        else if \<not> isMimeAllowed mime_arg then (Inl (GqlError ''MIME not allowed'' BAD_REQUEST), s)
        else if size_arg \<le> 0 \<or> size_arg > MAX_SIZE_BYTES
          then (Inl (GqlError ''Invalid size'' BAD_REQUEST), s)
        else
          let assetId = randomUUID e;
              nonce_v = randomBytes_hex e;
              expiresAt = now e + 5 * 60 * 1000;
              safeName = safeFilename (normalize_NFKC e) fname;
              storagePath = storagePath_of e uid assetId safeName
          in
          (case insert_asset e s
                  \<lparr>id' = assetId, owner_id = uid, filename = safeName, mime = mime_arg,
                   size' = size_arg, storage_path = storagePath, sha256 = None,
                   status = Uploading, version = 1, created_at = now e, updated_at = now e\<rparr> of
             None \<Rightarrow> (Inl (GqlError ''Failed to create asset'' BAD_REQUEST), s)
           | Some s1 \<Rightarrow>
             (case insert_ticket e s1
                     \<lparr>asset_id = assetId, user_id = uid, nonce = nonce_v, mime_t = mime_arg,
                      size_t = size_arg, storage_path_t = storagePath, expires_at = expiresAt,
                      used = False\<rparr> of
                None \<Rightarrow> (Inl (GqlError ''Failed to create ticket'' BAD_REQUEST), s1)
              | Some s2 \<Rightarrow>
                (case createSignedUploadUrl e storagePath of
                   None \<Rightarrow> (Inl (GqlError ''Failed to create uploadUrl'' BAD_REQUEST), s2)
                 | Some signedUrl \<Rightarrow>
                     (Inr \<lparr>assetId_p = assetId, storagePath_p = storagePath,
                           uploadUrl = signedUrl, expiresAt_p = expiresAt, nonce_p = nonce_v\<rparr>,
                      s2)))))"

definition finalizeUpload ::
  "env \<Rightarrow> Context \<Rightarrow> jsstring \<Rightarrow> jsstring \<Rightarrow> int \<Rightarrow> store
     \<Rightarrow> (gql_error + asset_node) \<times> store" where
  "finalizeUpload e ctx assetId clientSha256 ver s =
     (if falsy (userId ctx) then (Inl (GqlError ''Unauthenticated'' UNAUTHENTICATED), s)
      else (case select_asset e s assetId of
        None \<Rightarrow> (Inl (GqlError ''Asset not found'' NOT_FOUND), s)
      | Some a \<Rightarrow>
        if Some (owner_id a) \<noteq> userId ctx then (Inl (GqlError ''Forbidden'' FORBIDDEN), s)
        else if version a \<noteq> ver then (Inl (GqlError ''Version conflict'' VERSION_CONFLICT), s)
        else (case select_ticket e s assetId of
          None \<Rightarrow> (Inl (GqlError ''Ticket not found'' NOT_FOUND), s)
        | Some ticket \<Rightarrow>
          if Some (user_id ticket) \<noteq> userId ctx then (Inl (GqlError ''Forbidden'' FORBIDDEN), s)
          else if used ticket then (Inr (asset_node_of a), s)
          else if expires_at ticket < now e then (Inl (GqlError ''Ticket expired'' BAD_REQUEST), s)
          else (case download e (storage_path_t ticket) of
            None \<Rightarrow>
              (Inl (GqlError ''Object missing'' INTEGRITY_ERROR),
               update_asset e s assetId (\<lambda>r. r\<lparr>status := Corrupt\<rparr>))
          | Some buffer \<Rightarrow>
              let serverHash = sha256_hex e buffer;
                  st = (if serverHash = clientSha256 then Ready else Corrupt)
              in
              (case update_asset_single e s assetId
                      (\<lambda>r. r\<lparr>sha256 := Some serverHash, status := st, version := ver + 1,
                              updated_at := now e\<rparr>) of
                 None \<Rightarrow> (Inl (GqlError ''Failed to update asset'' BAD_REQUEST), s)
               | Some (updated, s1) \<Rightarrow>
                   let s2 = update_ticket e s1 assetId (\<lambda>t. t\<lparr>used := True\<rparr>) in
                   if st \<noteq> Ready then (Inl (GqlError ''Hash mismatch'' INTEGRITY_ERROR), s2)
                   else (Inr (asset_node_of updated), s2))))))"

definition shareAsset ::
  "env \<Rightarrow> Context \<Rightarrow> jsstring \<Rightarrow> jsstring \<Rightarrow> bool \<Rightarrow> int \<Rightarrow> store
     \<Rightarrow> (gql_error + asset_node) \<times> store" where
  "shareAsset e ctx assetId toEmail canDownload ver s =
     (if falsy (userId ctx) then (Inl (GqlError ''Unauthenticated'' UNAUTHENTICATED), s)
      else (case select_asset e s assetId of
        None \<Rightarrow> (Inl (GqlError ''Asset not found'' NOT_FOUND), s)
      | Some a \<Rightarrow>
        if Some (owner_id a) \<noteq> userId ctx then (Inl (GqlError ''Forbidden'' FORBIDDEN), s)
        else if version a \<noteq> ver then (Inl (GqlError ''Version conflict'' VERSION_CONFLICT), s)
        else (let toUserId = findUserIdByEmail e toEmail in
          if falsy toUserId then (Inl (GqlError ''User not found'' NOT_FOUND), s)
          else if toUserId = userId ctx then (Inr (asset_node_of a), s)
          else (case upsert_share e s
                      \<lparr>asset_id_s = assetId, to_user = the toUserId, can_download = canDownload\<rparr> of
            None \<Rightarrow> (Inl (GqlError ''Failed to share asset'' BAD_REQUEST), s)
          | Some s1 \<Rightarrow>
            (case update_asset_single e s1 assetId
                    (\<lambda>r. r\<lparr>version := version a + 1, updated_at := now e\<rparr>) of
               None \<Rightarrow> (Inl (GqlError ''Failed to update asset version'' BAD_REQUEST), s1)
             | Some (updated, s2) \<Rightarrow> (Inr (asset_node_of updated), s2))))))"

definition revokeShare ::
  "env \<Rightarrow> Context \<Rightarrow> jsstring \<Rightarrow> jsstring \<Rightarrow> int \<Rightarrow> store
     \<Rightarrow> (gql_error + asset_node) \<times> store" where
  "revokeShare e ctx assetId toEmail ver s =
     (if falsy (userId ctx) then (Inl (GqlError ''Unauthenticated'' UNAUTHENTICATED), s)
      else (case select_asset e s assetId of
        None \<Rightarrow> (Inl (GqlError ''Asset not found'' NOT_FOUND), s)
      | Some a \<Rightarrow>
        if Some (owner_id a) \<noteq> userId ctx then (Inl (GqlError ''Forbidden'' FORBIDDEN), s)
        else if version a \<noteq> ver then (Inl (GqlError ''Version conflict'' VERSION_CONFLICT), s)
        else (let toUserId = findUserIdByEmail e toEmail;
                 s1 = (if falsy toUserId then s else delete_share e s assetId (the toUserId))
          in
          (case update_asset_single e s1 assetId
                  (\<lambda>r. r\<lparr>version := version a + 1, updated_at := now e\<rparr>) of
             None \<Rightarrow> (Inl (GqlError ''Failed to update asset version'' BAD_REQUEST), s1)
           | Some (updated, s2) \<Rightarrow> (Inr (asset_node_of updated), s2)))))"

definition deleteAsset ::
  "env \<Rightarrow> Context \<Rightarrow> jsstring \<Rightarrow> int \<Rightarrow> store \<Rightarrow> (gql_error + bool) \<times> store" where
  "deleteAsset e ctx assetId ver s =
     (if falsy (userId ctx) then (Inl (GqlError ''Unauthenticated'' UNAUTHENTICATED), s)
      else (case select_asset e s assetId of
        None \<Rightarrow> (Inl (GqlError ''Asset not found'' NOT_FOUND), s)
      | Some a \<Rightarrow>
        if Some (owner_id a) \<noteq> userId ctx then (Inl (GqlError ''Forbidden'' FORBIDDEN), s)
        else if version a \<noteq> ver then (Inl (GqlError ''Version conflict'' VERSION_CONFLICT), s)
        else (case delete_asset e s assetId of
          None \<Rightarrow> (Inl (GqlError ''Failed to delete asset'' BAD_REQUEST), s)
        | Some s1 \<Rightarrow> (Inr True, s1))))"

definition getDownloadUrl ::
  "env \<Rightarrow> Context \<Rightarrow> jsstring \<Rightarrow> store \<Rightarrow> (gql_error + jsstring) \<times> store" where
  "getDownloadUrl e ctx assetId s =
     (if falsy (userId ctx) then (Inl (GqlError ''Unauthenticated'' UNAUTHENTICATED), s)
      else (case select_asset e s assetId of
        None \<Rightarrow> (Inl (GqlError ''Asset not found'' NOT_FOUND), s)
      | Some a \<Rightarrow>
        if Some (owner_id a) \<noteq> userId ctx then (Inl (GqlError ''Forbidden'' FORBIDDEN), s)
        else (case createSignedUrl e (storage_path a) 120 of
          None \<Rightarrow> (Inl (GqlError ''Failed to create download URL'' BAD_REQUEST), s)
        | Some signedUrl \<Rightarrow> (Inr signedUrl, s))))"

subsection \<open>The listing\<close>

text \<open>\<open>String.prototype.trim\<close>: white space and line terminators of ECMAScript.\<close>

definition isWhiteSpace :: "16 word \<Rightarrow> bool" where
  "isWhiteSpace c =
     (c \<in> {0x09, 0x0A, 0x0B, 0x0C, 0x0D, 0x20, 0xA0, 0x1680, 0x2028, 0x2029, 0x202F,
            0x205F, 0x3000, 0xFEFF}
      \<or> (0x2000 \<le> c \<and> c \<le> 0x200A))"

definition trim :: "jsstring \<Rightarrow> jsstring" where
  "trim str = rev (dropWhile isWhiteSpace (rev (dropWhile isWhiteSpace str)))"

record edge =
  cursor :: int
  node :: asset_node

record page_info =
  endCursor :: "int option"
  hasNextPage :: bool

record asset_connection =
  edges :: "edge list"
  pageInfo :: page_info

text \<open>The page size: \<open>args.first && args.first > 0 && args.first <= 50 ? args.first : 20\<close>.\<close>

definition page_limit :: "int option \<Rightarrow> int" where
  "page_limit first =
     (case first of
        None \<Rightarrow> 20
      | Some n \<Rightarrow> if n \<noteq> 0 \<and> n > 0 \<and> n \<le> 50 then n else 20)"

text \<open>
  The filters the query carries: \<open>created_at < after\<close> when a cursor is given (the store
  reads the cursor as a timestamp, and the query fails when it is none), and the
  case-insensitive pattern match on the file name when the trimmed search text is not
  empty. \<open>None\<close> is the failing query.
\<close>

definition query_filter ::
  "env \<Rightarrow> jsstring option \<Rightarrow> jsstring option \<Rightarrow> (asset_row \<Rightarrow> bool) option" where
  "query_filter e after q =
     (let q_ok = (\<lambda>r. if \<not> falsy q \<and> trim (the q) \<noteq> []
                       then ilike e (filename r) (js ''%'' @ trim (the q) @ js ''%'') else True)
      in if falsy after then Some q_ok
         else (case parse_timestamp e (the after) of
                 None \<Rightarrow> None
               | Some t \<Rightarrow> Some (\<lambda>r. created_at r < t \<and> q_ok r)))"

text \<open>
  The query: the rows that pass the filters, newest first, at most \<open>n\<close> of them. The
  client holds the service key, so the rows are those of the table.
\<close>

definition run_query ::
  "env \<Rightarrow> store \<Rightarrow> jsstring option \<Rightarrow> jsstring option \<Rightarrow> int \<Rightarrow> asset_row list option" where
  "run_query e s after q n =
     (if store_error e AssetSelect then None
      else (case query_filter e after q of
              None \<Rightarrow> None
            | Some ok \<Rightarrow> Some (take (nat n) (rev (sort_key created_at (filter ok (asset s)))))))"

definition myAssets ::
  "env \<Rightarrow> Context \<Rightarrow> jsstring option \<Rightarrow> int option \<Rightarrow> jsstring option \<Rightarrow> store
     \<Rightarrow> gql_error + asset_connection" where
  "myAssets e ctx after first q s =
     (if falsy (userId ctx) then Inl (GqlError ''Unauthenticated'' UNAUTHENTICATED)
      else
        let limit = page_limit first in
        (case run_query e s after q (limit + 1) of
           None \<Rightarrow> Inl (GqlError ''Failed to load assets'' BAD_REQUEST)
         | Some data \<Rightarrow>
             let hasNext = (int (length data) > limit);
                 slice = (if hasNext then take (nat limit) data else data);
                 endC = (if slice \<noteq> [] then Some (created_at (last slice)) else None)
             in Inr \<lparr>edges = map (\<lambda>row. \<lparr>cursor = created_at row, node = asset_node_of row\<rparr>) slice,
                     pageInfo = \<lparr>endCursor = endC, hasNextPage = hasNext\<rparr>\<rparr>))"

section \<open>Concrete inputs\<close>

text \<open>
  Unicode's NFKC on strings of ASCII characters and fullwidth forms: the fullwidth forms
  U+FF01 to U+FF5E have the compatibility decompositions U+0021 to U+007E, and ASCII
  characters are their own normal form. So \<open>nfkc_fullwidth\<close> is what
  \<open>normalize("NFKC")\<close> returns on such strings; it says nothing about other strings.
\<close>

definition nfkc_fullwidth :: "jsstring \<Rightarrow> jsstring" where
  "nfkc_fullwidth = map (\<lambda>c. if 0xFF01 \<le> c \<and> c \<le> 0xFF5E then c - 0xFEE0 else c)"

text \<open>\<open>toLowerCase\<close> on ASCII strings.\<close>

definition ascii_lower :: "jsstring \<Rightarrow> jsstring" where
  "ascii_lower = map (\<lambda>c. if 0x41 \<le> c \<and> c \<le> 0x5A then c + 0x20 else c)"

text \<open>
  A store with one asset of user \<open>u1\<close>, still uploading at version 1, and its unused
  ticket; an environment in which every call to a collaborator succeeds, the object of
  the asset holds three bytes, and the digest of a buffer is a stand-in that spells the
  bytes out.
\<close>

definition demo_ctx :: Context where
  "demo_ctx = \<lparr>userId = Some (js ''u1'')\<rparr>"

definition demo_asset :: asset_row where
  "demo_asset =
     \<lparr>id' = js ''a1'', owner_id = js ''u1'', filename = js ''f.png'', mime = js ''image/png'',
      size' = 3, storage_path = js ''p1'', sha256 = None, status = Uploading, version = 1,
      created_at = 1000, updated_at = 1000\<rparr>"

definition demo_ticket :: ticket_row where
  "demo_ticket =
     \<lparr>asset_id = js ''a1'', user_id = js ''u1'', nonce = js ''n1'', mime_t = js ''image/png'',
      size_t = 3, storage_path_t = js ''p1'', expires_at = 301000, used = False\<rparr>"

definition demo_store :: store where
  "demo_store = \<lparr>asset = [demo_asset], upload_ticket = [demo_ticket], asset_share = []\<rparr>"

definition demo_env :: env where
  "demo_env =
     \<lparr>now = 2000, randomUUID = js ''a2'', randomBytes_hex = js ''n2'',
      getUTCFullYear = (\<lambda>t. 2025), getUTCMonth = (\<lambda>t. 0),
      normalize_NFKC = nfkc_fullwidth, toLowerCase = ascii_lower,
      sha256_hex = map ucast,
      download = (\<lambda>p. if p = js ''p1'' then Some [1, 2, 3] else None),
      createSignedUploadUrl = (\<lambda>p. Some (js ''up:'' @ p)),
      createSignedUrl = (\<lambda>p n. Some (js ''dl:'' @ p)),
      listUsers = Some [\<lparr>user_ident = js ''u1'', email = Some (js ''A@x'')\<rparr>,
                        \<lparr>user_ident = js ''u2'', email = Some (js ''b@x'')\<rparr>],
      ilike = (\<lambda>v p. True), parse_timestamp = (\<lambda>str. None),
      store_error = (\<lambda>c. False)\<rparr>"

text \<open>A table of 21 assets, created at 0, 1, ..., 20.\<close>

definition many_assets :: store where
  "many_assets =
     \<lparr>asset = map (\<lambda>k. demo_asset\<lparr>id' := digits k, created_at := int k\<rparr>) [0..<21],
      upload_ticket = [], asset_share = []\<rparr>"

section \<open>Facts about the store\<close>

lemma single_eq_Some: "single xs = Some r \<longleftrightarrow> xs = [r]"
  by (auto simp: single_def split: list.splits)

lemma filter_update_rows:
  assumes "\<And>r. k (f r) = k r"
  shows "filter (\<lambda>r. k r = x) (map (\<lambda>r. if k r = x then f r else r) rows)
         = map f (filter (\<lambda>r. k r = x) rows)"
  by (induction rows) (simp_all add: assms)

lemma select_asset_Some:
  "select_asset e s assetId = Some a \<longleftrightarrow>
     \<not> store_error e AssetSelect \<and> filter (\<lambda>r. id' r = assetId) (asset s) = [a]"
  by (simp add: select_asset_def single_eq_Some)

lemma select_ticket_Some:
  "select_ticket e s assetId = Some t \<longleftrightarrow>
     \<not> store_error e TicketSelect \<and> filter (\<lambda>t. asset_id t = assetId) (upload_ticket s) = [t]"
  by (simp add: select_ticket_def single_eq_Some)

lemma update_asset_single_hit:
  assumes "select_asset e s assetId = Some a" and "\<not> store_error e AssetUpdate"
  shows "update_asset_single e s assetId f
         = Some (f a, s\<lparr>asset := map (\<lambda>r. if id' r = assetId then f r else r) (asset s)\<rparr>)"
  using assms by (simp add: update_asset_single_def select_asset_Some single_def)

lemma select_asset_updated:
  assumes "\<And>r. id' (f r) = id' r" and "select_asset e s assetId = Some a"
  shows "select_asset e (s\<lparr>asset := map (\<lambda>r. if id' r = assetId then f r else r) (asset s)\<rparr>)
           assetId = Some (f a)"
  using assms(2) by (simp add: select_asset_Some filter_update_rows [of id' f, OF assms(1)])

lemma select_ticket_updated:
  assumes "\<And>r. asset_id (f r) = asset_id r" and "select_ticket e s assetId = Some t"
  shows "select_ticket e
           (s\<lparr>upload_ticket := map (\<lambda>r. if asset_id r = assetId then f r else r) (upload_ticket s)\<rparr>)
           assetId = Some (f t)"
  using assms(2) by (simp add: select_ticket_Some filter_update_rows [of asset_id f, OF assms(1)])

lemma select_asset_frame [simp]:
  "select_asset e (s\<lparr>upload_ticket := ts\<rparr>) i = select_asset e s i"
  "select_asset e (s\<lparr>asset_share := sh\<rparr>) i = select_asset e s i"
  by (simp_all add: select_asset_def)

lemma select_ticket_frame [simp]:
  "select_ticket e (s\<lparr>asset := rows\<rparr>) i = select_ticket e s i"
  "select_ticket e (s\<lparr>asset_share := sh\<rparr>) i = select_ticket e s i"
  by (simp_all add: select_ticket_def)

text \<open>What a verifying finalize returns and the store it leaves.\<close>

lemma finalizeUpload_verifying:
  assumes "userId ctx = Some uid" "uid \<noteq> []"
    and "select_asset e s assetId = Some a" "owner_id a = uid" "version a = ver"
    and "select_ticket e s assetId = Some t" "user_id t = uid" "\<not> used t"
      "\<not> expires_at t < now e"
    and "download e (storage_path_t t) = Some buffer"
    and "\<not> store_error e AssetUpdate"
  shows "finalizeUpload e ctx assetId clientSha256 ver s
           = (if sha256_hex e buffer = clientSha256
              then Inr (asset_node_of
                (a\<lparr>sha256 := Some (sha256_hex e buffer), status := Ready, version := ver + 1,
                   updated_at := now e\<rparr>))
              else Inl (GqlError ''Hash mismatch'' INTEGRITY_ERROR),
              update_ticket e
                (s\<lparr>asset := map (\<lambda>r. if id' r = assetId
                    then r\<lparr>sha256 := Some (sha256_hex e buffer),
                           status := (if sha256_hex e buffer = clientSha256 then Ready else Corrupt),
                           version := ver + 1, updated_at := now e\<rparr>
                    else r) (asset s)\<rparr>)
                assetId (\<lambda>t. t\<lparr>used := True\<rparr>))"
  unfolding finalizeUpload_def
  using assms
  by (simp add: falsy_def update_asset_single_hit cong: if_cong)

lemma finalizeUpload_used:
  assumes "userId ctx = Some uid" "uid \<noteq> []"
    and "select_asset e s assetId = Some a" "owner_id a = uid" "version a = ver"
    and "select_ticket e s assetId = Some t" "user_id t = uid" "used t"
  shows "finalizeUpload e ctx assetId clientSha256 ver s = (Inr (asset_node_of a), s)"
  unfolding finalizeUpload_def
  using assms
  by (simp add: falsy_def)


lemma update_ticket_asset [simp]: "asset (update_ticket e s i f) = asset s"
  by (simp add: update_ticket_def)

lemma update_ticket_share [simp]: "asset_share (update_ticket e s i f) = asset_share s"
  by (simp add: update_ticket_def)

lemma select_asset_update_ticket [simp]:
  "select_asset e (update_ticket e' s i f) j = select_asset e s j"
  by (simp add: select_asset_def)

lemma select_ticket_update_ticket:
  assumes "\<And>r. asset_id (f r) = asset_id r" and "select_ticket e s i = Some t"
    and "\<not> store_error e' TicketUpdate"
  shows "select_ticket e (update_ticket e' s i f) i = Some (f t)"
  using assms(3) select_ticket_updated [OF assms(1,2)]
  by (simp add: update_ticket_def)

text \<open>After a finalize that returned an asset and whose ticket write went through.\<close>

lemma finalizeUpload_success_post:
  assumes ok: "finalizeUpload e ctx i h ver s = (Inr n, s')"
    and tw: "\<not> store_error e TicketUpdate"
  shows "\<exists>uid a t. userId ctx = Some uid \<and> uid \<noteq> []
           \<and> select_asset e s' i = Some a \<and> owner_id a = uid \<and> asset_node_of a = n
           \<and> select_ticket e s' i = Some t \<and> user_id t = uid \<and> used t"
proof -
  from ok obtain uid where uid: "userId ctx = Some uid" "uid \<noteq> []"
    by (cases "userId ctx") (auto simp: finalizeUpload_def falsy_def split: if_splits)
  from ok uid obtain a where a: "select_asset e s i = Some a" "owner_id a = uid" "version a = ver"
    by (cases "select_asset e s i") (auto simp: finalizeUpload_def falsy_def split: if_splits)
  from ok uid a obtain t where t: "select_ticket e s i = Some t" "user_id t = uid"
    by (cases "select_ticket e s i") (auto simp: finalizeUpload_def falsy_def split: if_splits)
  show ?thesis
  proof (cases "used t")
    case True
    from finalizeUpload_used [OF uid a t True, of h] ok
    have "n = asset_node_of a" "s' = s" by simp_all
    with uid a t True show ?thesis by simp
  next
    case False
    from ok uid a t False have ex: "\<not> expires_at t < now e"
      by (auto simp: finalizeUpload_def falsy_def)
    from ok uid a t False ex obtain buffer where b: "download e (storage_path_t t) = Some buffer"
      by (cases "download e (storage_path_t t)") (auto simp: finalizeUpload_def falsy_def)
    from ok uid a t False ex b have aw: "\<not> store_error e AssetUpdate"
      by (auto simp: finalizeUpload_def falsy_def update_asset_single_def)
    let ?f = "\<lambda>r. r\<lparr>sha256 := Some (sha256_hex e buffer),
                     status := (if sha256_hex e buffer = h then Ready else Corrupt),
                     version := ver + 1, updated_at := now e\<rparr>"
    let ?s1 = "s\<lparr>asset := map (\<lambda>r. if id' r = i then ?f r else r) (asset s)\<rparr>"
    from finalizeUpload_verifying [OF uid a t False ex b aw, of h] ok
    have hm: "sha256_hex e buffer = h"
      and n: "n = asset_node_of (a\<lparr>sha256 := Some (sha256_hex e buffer), status := Ready,
                  version := ver + 1, updated_at := now e\<rparr>)"
      and s': "s' = update_ticket e ?s1 i (\<lambda>t. t\<lparr>used := True\<rparr>)"
      by (simp_all split: if_splits)
    have "select_asset e ?s1 i = Some (?f a)"
      using a(1) by (intro select_asset_updated) simp_all
    then have sa: "select_asset e s' i = Some (?f a)"
      by (simp add: s')
    have "select_ticket e ?s1 i = Some t"
      using t(1) by simp
    then have st: "select_ticket e s' i = Some (t\<lparr>used := True\<rparr>)"
      unfolding s' using tw by (intro select_ticket_update_ticket) simp_all
    from uid a t sa st n hm show ?thesis by simp
  qed
qed

section \<open>Concrete facts\<close>

lemmas demo_defs =
  demo_env_def demo_store_def demo_asset_def demo_ticket_def demo_ctx_def js_def

lemmas store_defs =
  select_asset_def select_ticket_def update_asset_def update_asset_single_def
  update_ticket_def insert_asset_def insert_ticket_def delete_asset_def upsert_share_def
  delete_share_def single_def falsy_def

text \<open>The demo store after the finalize that verifies the object.\<close>

lemma demo_finalized:
  "finalizeUpload demo_env demo_ctx (js ''a1'') [1, 2, 3] 1 demo_store
     = (Inr (asset_node_of (demo_asset\<lparr>sha256 := Some [1, 2, 3], status := Ready, version := 2,
                              updated_at := 2000\<rparr>)),
        \<lparr>asset = [demo_asset\<lparr>sha256 := Some [1, 2, 3], status := Ready, version := 2,
                              updated_at := 2000\<rparr>],
         upload_ticket = [demo_ticket\<lparr>used := True\<rparr>], asset_share = []\<rparr>)"
  by (simp add: finalizeUpload_def store_defs demo_defs Let_def)

section \<open>The claims\<close>

subsection \<open>C1: integrity verification\<close>

text \<open>
  Claim C1. A \<open>finalizeUpload\<close> call that passes the not-found, ownership, version, ticket
  and expiry checks, whose object downloads and whose two writes the store accepts:
  when the server's digest of the downloaded bytes equals the claimed hash, the call
  returns the asset, now \<open>Ready\<close> with the digest stored; when it differs, the call throws
  \<open>INTEGRITY_ERROR\<close> and the asset is \<open>Corrupt\<close>. In both cases the stored version is the
  old one plus one, the ticket is marked used, and the shares are untouched.
\<close>

theorem finalize_verifies:
  assumes auth: "userId ctx = Some uid" "uid \<noteq> []"
    and asset: "select_asset e s assetId = Some a" "owner_id a = uid" "version a = ver"
    and ticket: "select_ticket e s assetId = Some t" "user_id t = uid" "\<not> used t"
      "\<not> expires_at t < now e"
    and object: "download e (storage_path_t t) = Some buffer"
    and writes: "\<not> store_error e AssetUpdate" "\<not> store_error e TicketUpdate"
  shows "let h = sha256_hex e buffer;
             st = (if h = clientSha256 then Ready else Corrupt);
             a' = a\<lparr>sha256 := Some h, status := st, version := version a + 1,
                    updated_at := now e\<rparr>;
             r = finalizeUpload e ctx assetId clientSha256 ver s
         in fst r = (if h = clientSha256 then Inr (asset_node_of a')
                     else Inl (GqlError ''Hash mismatch'' INTEGRITY_ERROR))
          \<and> select_asset e (snd r) assetId = Some a'
          \<and> select_ticket e (snd r) assetId = Some (t\<lparr>used := True\<rparr>)
          \<and> asset_share (snd r) = asset_share s"
proof -
  let ?h = "sha256_hex e buffer"
  let ?st = "if ?h = clientSha256 then Ready else Corrupt"
  let ?f = "\<lambda>r. r\<lparr>sha256 := Some ?h, status := ?st, version := ver + 1, updated_at := now e\<rparr>"
  let ?g = "\<lambda>t. t\<lparr>used := True\<rparr>"
  let ?s1 = "s\<lparr>asset := map (\<lambda>r. if id' r = assetId then ?f r else r) (asset s)\<rparr>"
  let ?s2 = "update_ticket e ?s1 assetId ?g"
  have r: "finalizeUpload e ctx assetId clientSha256 ver s
           = (if ?h = clientSha256 then Inr (asset_node_of (?f a))
              else Inl (GqlError ''Hash mismatch'' INTEGRITY_ERROR), ?s2)"
    using finalizeUpload_verifying [OF auth asset ticket object writes(1), of clientSha256]
    by (simp cong: if_cong)
  have "select_asset e ?s1 assetId = Some (?f a)"
    using asset(1) by (intro select_asset_updated) simp_all
  then have sa: "select_asset e ?s2 assetId = Some (?f a)"
    by simp
  have "select_ticket e ?s1 assetId = Some t"
    using ticket(1) by simp
  then have stk: "select_ticket e ?s2 assetId = Some (?g t)"
    using writes(2) by (intro select_ticket_update_ticket) simp_all
  show ?thesis
    unfolding Let_def r using sa stk asset(3) by simp
qed

text \<open>The theorem at the demo store, with a matching and with a wrong claimed hash.\<close>

theorem finalize_verifies_witness:
  "fst (finalizeUpload demo_env demo_ctx (js ''a1'') [1, 2, 3] 1 demo_store)
     = Inr (asset_node_of (demo_asset\<lparr>sha256 := Some [1, 2, 3], status := Ready, version := 2,
                             updated_at := 2000\<rparr>))
   \<and> select_ticket demo_env (snd (finalizeUpload demo_env demo_ctx (js ''a1'') [1, 2, 3] 1 demo_store))
        (js ''a1'') = Some (demo_ticket\<lparr>used := True\<rparr>)
   \<and> fst (finalizeUpload demo_env demo_ctx (js ''a1'') [9] 1 demo_store)
     = Inl (GqlError ''Hash mismatch'' INTEGRITY_ERROR)
   \<and> select_asset demo_env (snd (finalizeUpload demo_env demo_ctx (js ''a1'') [9] 1 demo_store))
        (js ''a1'')
     = Some (demo_asset\<lparr>sha256 := Some [1, 2, 3], status := Corrupt, version := 2,
                          updated_at := 2000\<rparr>)"
proof -
  have auth: "userId demo_ctx = Some (js ''u1'')" "js ''u1'' \<noteq> []"
    by (simp_all add: demo_ctx_def js_def)
  have a: "select_asset demo_env demo_store (js ''a1'') = Some demo_asset"
    "owner_id demo_asset = js ''u1''" "version demo_asset = 1"
    by (simp_all add: select_asset_def single_def demo_defs)
  have t: "select_ticket demo_env demo_store (js ''a1'') = Some demo_ticket"
    "user_id demo_ticket = js ''u1''" "\<not> used demo_ticket"
    "\<not> expires_at demo_ticket < now demo_env"
    by (simp_all add: select_ticket_def single_def demo_defs)
  have obj: "download demo_env (storage_path_t demo_ticket) = Some [1, 2, 3]"
    by (simp add: demo_defs)
  have w: "\<not> store_error demo_env AssetUpdate" "\<not> store_error demo_env TicketUpdate"
    by (simp_all add: demo_env_def)
  have h: "sha256_hex demo_env [1, 2, 3] = [1, 2, 3]" "now demo_env = 2000"
    by (simp_all add: demo_env_def)
  show ?thesis
    using finalize_verifies [OF auth a t obj w, of "[1, 2, 3]"]
      finalize_verifies [OF auth a t obj w, of "[9]"]
    by (simp add: Let_def h a(3))
qed

subsection \<open>C2: finalize again\<close>

text \<open>
  Claim C2, as the code has it. When the not-found, ownership, version and ticket checks
  pass and the ticket is already marked used, \<open>finalizeUpload\<close> returns the current asset
  and leaves the store as it is, whatever hash is claimed and whatever the object store
  holds. So after a finalize that returned the asset and whose ticket write the store
  applied, a second call with the version the first call returned gives the same asset
  and the same store, for any claimed hash and in any environment whose reads succeed.
  The condition on the ticket write is needed: the code does not look at the outcome of
  that write, so a finalize can return the asset and leave the ticket unused, and the
  next call then verifies again.
\<close>

theorem finalize_repeat:
  "(userId ctx = Some uid \<and> uid \<noteq> [] \<and> select_asset e s assetId = Some a \<and> owner_id a = uid
      \<and> version a = ver \<and> select_ticket e s assetId = Some t \<and> user_id t = uid \<and> used t
    \<longrightarrow> finalizeUpload e ctx assetId clientSha256 ver s = (Inr (asset_node_of a), s))
   \<and> (finalizeUpload e ctx assetId clientSha256 ver s = (Inr n, s')
        \<and> \<not> store_error e TicketUpdate
        \<and> \<not> store_error e2 AssetSelect \<and> \<not> store_error e2 TicketSelect
      \<longrightarrow> finalizeUpload e2 ctx assetId claimed (node_version n) s' = (Inr n, s'))"
proof (intro conjI impI)
  assume "userId ctx = Some uid \<and> uid \<noteq> [] \<and> select_asset e s assetId = Some a \<and> owner_id a = uid
      \<and> version a = ver \<and> select_ticket e s assetId = Some t \<and> user_id t = uid \<and> used t"
  then show "finalizeUpload e ctx assetId clientSha256 ver s = (Inr (asset_node_of a), s)"
    by (intro finalizeUpload_used [of ctx uid e s assetId a ver t]) simp_all
next
  assume h: "finalizeUpload e ctx assetId clientSha256 ver s = (Inr n, s')
        \<and> \<not> store_error e TicketUpdate
        \<and> \<not> store_error e2 AssetSelect \<and> \<not> store_error e2 TicketSelect"
  then obtain u b k where post: "userId ctx = Some u" "u \<noteq> []"
      "select_asset e s' assetId = Some b" "owner_id b = u" "asset_node_of b = n"
      "select_ticket e s' assetId = Some k" "user_id k = u" "used k"
    using finalizeUpload_success_post [of e ctx assetId clientSha256 ver s n s'] by blast
  from post(3) h have b2: "select_asset e2 s' assetId = Some b"
    by (simp add: select_asset_Some)
  from post(6) h have k2: "select_ticket e2 s' assetId = Some k"
    by (simp add: select_ticket_Some)
  have v: "version b = node_version n"
    using post(5) by (auto simp: asset_node_of_def)
  from finalizeUpload_used [OF post(1,2) b2 post(4) v k2 post(7,8), of claimed] post(5)
  show "finalizeUpload e2 ctx assetId claimed (node_version n) s' = (Inr n, s')"
    by simp
qed

text \<open>
  Claim C2 as stated fails: the first successful finalize raises the stored version, so
  the second call with the same arguments, the same version number among them, stops at
  the version check.
\<close>

theorem finalize_repeat_same_version_counterexample:
  "fst (finalizeUpload demo_env demo_ctx (js ''a1'') [1, 2, 3] 1 demo_store)
     = Inr (asset_node_of (demo_asset\<lparr>sha256 := Some [1, 2, 3], status := Ready, version := 2,
                             updated_at := 2000\<rparr>))
   \<and> fst (finalizeUpload demo_env demo_ctx (js ''a1'') [1, 2, 3] 1
        (snd (finalizeUpload demo_env demo_ctx (js ''a1'') [1, 2, 3] 1 demo_store)))
     = Inl (GqlError ''Version conflict'' VERSION_CONFLICT)"
  unfolding demo_finalized
  by (simp add: finalizeUpload_def store_defs demo_defs Let_def)

text \<open>
  Both parts at the demo store: the second call after the verifying one, and a call on
  a store whose ticket is already used.
\<close>

theorem finalize_repeat_witness:
  "finalizeUpload demo_env demo_ctx (js ''a1'') [7] 2
     (snd (finalizeUpload demo_env demo_ctx (js ''a1'') [1, 2, 3] 1 demo_store))
   = finalizeUpload demo_env demo_ctx (js ''a1'') [1, 2, 3] 1 demo_store
   \<and> finalizeUpload demo_env demo_ctx (js ''a1'') [8] 7
       (demo_store\<lparr>asset := [demo_asset\<lparr>version := 7\<rparr>],
                   upload_ticket := [demo_ticket\<lparr>used := True\<rparr>]\<rparr>)
     = (Inr (asset_node_of (demo_asset\<lparr>version := 7\<rparr>)),
        demo_store\<lparr>asset := [demo_asset\<lparr>version := 7\<rparr>],
                   upload_ticket := [demo_ticket\<lparr>used := True\<rparr>]\<rparr>)"
proof -
  let ?s = "demo_store\<lparr>asset := [demo_asset\<lparr>version := 7\<rparr>],
                       upload_ticket := [demo_ticket\<lparr>used := True\<rparr>]\<rparr>"
  have pre: "userId demo_ctx = Some (js ''u1'') \<and> js ''u1'' \<noteq> []
      \<and> select_asset demo_env ?s (js ''a1'') = Some (demo_asset\<lparr>version := 7\<rparr>)
      \<and> owner_id (demo_asset\<lparr>version := 7\<rparr>) = js ''u1''
      \<and> version (demo_asset\<lparr>version := 7\<rparr>) = 7
      \<and> select_ticket demo_env ?s (js ''a1'') = Some (demo_ticket\<lparr>used := True\<rparr>)
      \<and> user_id (demo_ticket\<lparr>used := True\<rparr>) = js ''u1'' \<and> used (demo_ticket\<lparr>used := True\<rparr>)"
    by (simp add: store_defs demo_defs)
  have ok: "\<not> store_error demo_env TicketUpdate \<and> \<not> store_error demo_env AssetSelect
      \<and> \<not> store_error demo_env TicketSelect"
    by (simp add: demo_env_def)
  note rep1 = finalize_repeat [of demo_ctx "js ''u1''" demo_env ?s "js ''a1''"
      "demo_asset\<lparr>version := 7\<rparr>" 7 "demo_ticket\<lparr>used := True\<rparr>" "[8]"]
  note rep2 = finalize_repeat [of demo_ctx _ demo_env demo_store "js ''a1''" _ 1 _ "[1, 2, 3]"
      _ _ demo_env "[7]"]
  from rep1 pre have one: "finalizeUpload demo_env demo_ctx (js ''a1'') [8] 7 ?s
      = (Inr (asset_node_of (demo_asset\<lparr>version := 7\<rparr>)), ?s)"
    by blast
  from rep2 [THEN conjunct2, rule_format, OF conjI [OF demo_finalized ok]]
  have two: "finalizeUpload demo_env demo_ctx (js ''a1'') [7] 2
     (snd (finalizeUpload demo_env demo_ctx (js ''a1'') [1, 2, 3] 1 demo_store))
   = finalizeUpload demo_env demo_ctx (js ''a1'') [1, 2, 3] 1 demo_store"
    by (simp add: demo_finalized asset_node_of_def)
  from one two show ?thesis by blast
qed

subsection \<open>C3: the version on every write\<close>

text \<open>
  Claim C3 at the demo store when the object cannot be downloaded: the call throws
  \<open>INTEGRITY_ERROR\<close> and rewrites the asset row as \<open>Corrupt\<close>, and the row's version is the
  one it had. The verifying path above writes \<open>version + 1\<close>; this write does not.
\<close>

theorem finalize_object_missing:
  "finalizeUpload (demo_env\<lparr>download := (\<lambda>p. None)\<rparr>) demo_ctx (js ''a1'') [1, 2, 3] 1 demo_store
     = (Inl (GqlError ''Object missing'' INTEGRITY_ERROR),
        demo_store\<lparr>asset := [demo_asset\<lparr>status := Corrupt\<rparr>]\<rparr>)
   \<and> version (demo_asset\<lparr>status := Corrupt\<rparr>) = version demo_asset
   \<and> demo_asset\<lparr>status := Corrupt\<rparr> \<noteq> demo_asset"
  by (simp add: finalizeUpload_def store_defs demo_defs Let_def)

subsection \<open>C4: stale versions\<close>

text \<open>
  Claim C4. For an authenticated caller who owns an existing asset, each of
  \<open>finalizeUpload\<close>, \<open>shareAsset\<close>, \<open>revokeShare\<close> and \<open>deleteAsset\<close> called with a
  version other than the stored one throws \<open>VERSION_CONFLICT\<close> and leaves the whole store
  (assets, tickets and shares) as it was.
\<close>

theorem stale_version_rejected:
  assumes "userId ctx = Some uid" and "uid \<noteq> []"
    and "select_asset e s assetId = Some a" and "owner_id a = uid"
    and "version a \<noteq> ver"
  shows "finalizeUpload e ctx assetId clientSha256 ver s
           = (Inl (GqlError ''Version conflict'' VERSION_CONFLICT), s)
       \<and> shareAsset e ctx assetId toEmail canDownload ver s
           = (Inl (GqlError ''Version conflict'' VERSION_CONFLICT), s)
       \<and> revokeShare e ctx assetId toEmail ver s
           = (Inl (GqlError ''Version conflict'' VERSION_CONFLICT), s)
       \<and> deleteAsset e ctx assetId ver s
           = (Inl (GqlError ''Version conflict'' VERSION_CONFLICT), s)"
  using assms
  by (simp add: finalizeUpload_def shareAsset_def revokeShare_def deleteAsset_def falsy_def)

text \<open>The four calls on the demo store, whose asset is at version 1, with version 5.\<close>

theorem stale_version_rejected_witness:
  "finalizeUpload demo_env demo_ctx (js ''a1'') [1, 2, 3] 5 demo_store
     = (Inl (GqlError ''Version conflict'' VERSION_CONFLICT), demo_store)
   \<and> shareAsset demo_env demo_ctx (js ''a1'') (js ''b@x'') True 5 demo_store
     = (Inl (GqlError ''Version conflict'' VERSION_CONFLICT), demo_store)
   \<and> revokeShare demo_env demo_ctx (js ''a1'') (js ''b@x'') 5 demo_store
     = (Inl (GqlError ''Version conflict'' VERSION_CONFLICT), demo_store)
   \<and> deleteAsset demo_env demo_ctx (js ''a1'') 5 demo_store
     = (Inl (GqlError ''Version conflict'' VERSION_CONFLICT), demo_store)"
proof -
  have auth: "userId demo_ctx = Some (js ''u1'')" "js ''u1'' \<noteq> []"
    by (simp_all add: demo_ctx_def js_def)
  have a: "select_asset demo_env demo_store (js ''a1'') = Some demo_asset"
    "owner_id demo_asset = js ''u1''" "version demo_asset \<noteq> 5"
    by (simp_all add: select_asset_def single_def demo_defs)
  show ?thesis
    using stale_version_rejected [OF auth a, of "[1, 2, 3]" "js ''b@x''" True] by simp
qed

subsection \<open>C5: expired tickets\<close>

text \<open>
  Claim C5. When the ticket of the asset is not used and its expiry lies before the
  clock of the call, \<open>finalizeUpload\<close> throws, and the store stays as it was: the ticket
  stays unused and the asset row unchanged. A call that passes the checks before the
  expiry check throws \<open>BAD_REQUEST\<close>; one that fails an earlier check throws that
  check's error.
\<close>

theorem expired_ticket_rejected:
  assumes "select_ticket e s assetId = Some t" and "\<not> used t" and "expires_at t < now e"
  shows "(userId ctx = Some uid \<and> uid \<noteq> [] \<and> select_asset e s assetId = Some a
            \<and> owner_id a = uid \<and> version a = ver \<and> user_id t = uid
          \<longrightarrow> finalizeUpload e ctx assetId clientSha256 ver s
                = (Inl (GqlError ''Ticket expired'' BAD_REQUEST), s))
       \<and> thrown (fst (finalizeUpload e ctx assetId clientSha256 ver s)) \<noteq> None
       \<and> snd (finalizeUpload e ctx assetId clientSha256 ver s) = s"
  using assms
  by (auto simp add: finalizeUpload_def falsy_def thrown_def split: option.splits)

text \<open>The demo ticket expires at 301000; the call below comes at 400000.\<close>

theorem expired_ticket_rejected_witness:
  "finalizeUpload (demo_env\<lparr>now := 400000\<rparr>) demo_ctx (js ''a1'') [1, 2, 3] 1 demo_store
     = (Inl (GqlError ''Ticket expired'' BAD_REQUEST), demo_store)
   \<and> select_ticket (demo_env\<lparr>now := 400000\<rparr>) demo_store (js ''a1'') = Some demo_ticket
   \<and> \<not> used demo_ticket"
proof -
  let ?e = "demo_env\<lparr>now := 400000\<rparr>"
  have t: "select_ticket ?e demo_store (js ''a1'') = Some demo_ticket"
    "\<not> used demo_ticket" "expires_at demo_ticket < now ?e"
    by (simp_all add: select_ticket_def single_def demo_defs)
  have pre: "userId demo_ctx = Some (js ''u1'') \<and> js ''u1'' \<noteq> []
      \<and> select_asset ?e demo_store (js ''a1'') = Some demo_asset
      \<and> owner_id demo_asset = js ''u1'' \<and> version demo_asset = 1
      \<and> user_id demo_ticket = js ''u1''"
    by (simp add: select_asset_def single_def demo_defs)
  from expired_ticket_rejected [OF t, of demo_ctx "js ''u1''" demo_asset 1 "[1, 2, 3]"] pre t
  show ?thesis by blast
qed

subsection \<open>C6: validation of an upload request\<close>

lemma isMimeAllowed_iff:
  "isMimeAllowed m \<longleftrightarrow>
     prefix (js ''image/'') m \<or> prefix (js ''video/'') m \<or> prefix (js ''application/pdf'') m"
  by (auto simp: isMimeAllowed_def ALLOWED_MIME_PREFIXES_def)

text \<open>
  Claim C6. For an authenticated caller: when the MIME type starts with \<open>image/\<close>,
  \<open>video/\<close> or \<open>application/pdf\<close> and the size is positive and at most 30 MiB, and the
  store accepts the two inserts and the object store signs the path, \<open>createUploadUrl\<close>
  returns the payload and adds exactly one asset row, \<open>Uploading\<close> at version 1 under the
  generated id, and its unused ticket; for every other MIME type and size it throws
  \<open>BAD_REQUEST\<close> and leaves the store as it was.
\<close>

theorem createUploadUrl_validates:
  assumes "userId ctx = Some uid" and "uid \<noteq> []"
  shows "((prefix (js ''image/'') m \<or> prefix (js ''video/'') m \<or> prefix (js ''application/pdf'') m)
            \<and> 0 < sz \<and> sz \<le> 30 * 1024 * 1024
          \<longrightarrow> \<not> store_error e AssetInsert \<and> \<not> store_error e TicketInsert
              \<and> createSignedUploadUrl e
                    (storagePath_of e uid (randomUUID e) (safeFilename (normalize_NFKC e) fname))
                  = Some url
          \<longrightarrow> createUploadUrl e ctx fname m sz s
                = (let path = storagePath_of e uid (randomUUID e)
                                (safeFilename (normalize_NFKC e) fname)
                   in (Inr \<lparr>assetId_p = randomUUID e, storagePath_p = path, uploadUrl = url,
                            expiresAt_p = now e + 300000, nonce_p = randomBytes_hex e\<rparr>,
                       s\<lparr>asset := asset s @
                            [\<lparr>id' = randomUUID e, owner_id = uid,
                              filename = safeFilename (normalize_NFKC e) fname, mime = m,
                              size' = sz, storage_path = path, sha256 = None,
                              status = Uploading, version = 1, created_at = now e,
                              updated_at = now e\<rparr>],
                         upload_ticket := upload_ticket s @
                            [\<lparr>asset_id = randomUUID e, user_id = uid,
                              nonce = randomBytes_hex e, mime_t = m, size_t = sz,
                              storage_path_t = path, expires_at = now e + 300000,
                              used = False\<rparr>]\<rparr>)))
       \<and> (\<not> ((prefix (js ''image/'') m \<or> prefix (js ''video/'') m
                  \<or> prefix (js ''application/pdf'') m)
                \<and> 0 < sz \<and> sz \<le> 30 * 1024 * 1024)
          \<longrightarrow> thrown (fst (createUploadUrl e ctx fname m sz s)) = Some BAD_REQUEST
              \<and> snd (createUploadUrl e ctx fname m sz s) = s)"
proof (intro conjI impI)
  assume v: "(prefix (js ''image/'') m \<or> prefix (js ''video/'') m \<or> prefix (js ''application/pdf'') m)
            \<and> 0 < sz \<and> sz \<le> 30 * 1024 * 1024"
    and ext: "\<not> store_error e AssetInsert \<and> \<not> store_error e TicketInsert
              \<and> createSignedUploadUrl e
                    (storagePath_of e uid (randomUUID e) (safeFilename (normalize_NFKC e) fname))
                  = Some url"
  from v have ok: "isMimeAllowed m" "\<not> (sz \<le> 0 \<or> sz > MAX_SIZE_BYTES)"
    by (simp_all add: isMimeAllowed_iff MAX_SIZE_BYTES_def)
  show "createUploadUrl e ctx fname m sz s
                = (let path = storagePath_of e uid (randomUUID e)
                                (safeFilename (normalize_NFKC e) fname)
                   in (Inr \<lparr>assetId_p = randomUUID e, storagePath_p = path, uploadUrl = url,
                            expiresAt_p = now e + 300000, nonce_p = randomBytes_hex e\<rparr>,
                       s\<lparr>asset := asset s @
                            [\<lparr>id' = randomUUID e, owner_id = uid,
                              filename = safeFilename (normalize_NFKC e) fname, mime = m,
                              size' = sz, storage_path = path, sha256 = None,
                              status = Uploading, version = 1, created_at = now e,
                              updated_at = now e\<rparr>],
                         upload_ticket := upload_ticket s @
                            [\<lparr>asset_id = randomUUID e, user_id = uid,
                              nonce = randomBytes_hex e, mime_t = m, size_t = sz,
                              storage_path_t = path, expires_at = now e + 300000,
                              used = False\<rparr>]\<rparr>))"
    unfolding createUploadUrl_def
    using assms ok ext
    by (simp add: Let_def insert_asset_def insert_ticket_def)
next
  assume "\<not> ((prefix (js ''image/'') m \<or> prefix (js ''video/'') m
                  \<or> prefix (js ''application/pdf'') m)
                \<and> 0 < sz \<and> sz \<le> 30 * 1024 * 1024)"
  then have bad: "\<not> isMimeAllowed m \<or> sz \<le> 0 \<or> sz > MAX_SIZE_BYTES"
    by (auto simp: isMimeAllowed_iff MAX_SIZE_BYTES_def)
  then show "thrown (fst (createUploadUrl e ctx fname m sz s)) = Some BAD_REQUEST"
    using assms by (auto simp: createUploadUrl_def thrown_def)
  from bad show "snd (createUploadUrl e ctx fname m sz s) = s"
    using assms by (auto simp: createUploadUrl_def)
qed

text \<open>A valid request on the demo store, and requests with a wrong MIME type or size.\<close>

theorem createUploadUrl_validates_witness:
  "thrown (fst (createUploadUrl demo_env demo_ctx (js ''x.png'') (js ''image/png'') 10 demo_store))
     = None
   \<and> map version (asset (snd (createUploadUrl demo_env demo_ctx (js ''x.png'') (js ''image/png'')
        10 demo_store))) = [1, 1]
   \<and> createUploadUrl demo_env demo_ctx (js ''x.png'') (js ''text/plain'') 10 demo_store
     = (Inl (GqlError ''MIME not allowed'' BAD_REQUEST), demo_store)
   \<and> createUploadUrl demo_env demo_ctx (js ''x.png'') (js ''image/png'') 0 demo_store
     = (Inl (GqlError ''Invalid size'' BAD_REQUEST), demo_store)
   \<and> createUploadUrl demo_env demo_ctx (js ''x.png'') (js ''image/png'') 31457281 demo_store
     = (Inl (GqlError ''Invalid size'' BAD_REQUEST), demo_store)"
proof -
  have auth: "userId demo_ctx = Some (js ''u1'')" "js ''u1'' \<noteq> []"
    by (simp_all add: demo_ctx_def js_def)
  let ?p = "storagePath_of demo_env (js ''u1'') (randomUUID demo_env)
              (safeFilename (normalize_NFKC demo_env) (js ''x.png''))"
  have v: "(prefix (js ''image/'') (js ''image/png'') \<or> prefix (js ''video/'') (js ''image/png'')
             \<or> prefix (js ''application/pdf'') (js ''image/png''))
           \<and> (0::int) < 10 \<and> (10::int) \<le> 30 * 1024 * 1024"
    by (simp add: js_def)
  have ext: "\<not> store_error demo_env AssetInsert \<and> \<not> store_error demo_env TicketInsert
      \<and> createSignedUploadUrl demo_env ?p = Some (js ''up:'' @ ?p)"
    by (simp add: demo_env_def)
  from createUploadUrl_validates [OF auth, of "js ''image/png''" 10 demo_env "js ''x.png''"
      "js ''up:'' @ ?p" demo_store, THEN conjunct1, rule_format, OF v ext]
  have good: "thrown (fst (createUploadUrl demo_env demo_ctx (js ''x.png'') (js ''image/png'') 10
        demo_store)) = None
      \<and> map version (asset (snd (createUploadUrl demo_env demo_ctx (js ''x.png'')
          (js ''image/png'') 10 demo_store))) = [1, 1]"
    by (simp add: thrown_def demo_store_def demo_asset_def Let_def)
  have b1: "\<not> ((prefix (js ''image/'') (js ''text/plain'') \<or> prefix (js ''video/'') (js ''text/plain'')
             \<or> prefix (js ''application/pdf'') (js ''text/plain''))
           \<and> (0::int) < 10 \<and> (10::int) \<le> 30 * 1024 * 1024)"
    by (simp add: js_def)
  from createUploadUrl_validates [OF auth, of "js ''text/plain''" 10 demo_env "js ''x.png''"
      _ demo_store, THEN conjunct2, rule_format, OF b1]
  have bad1: "createUploadUrl demo_env demo_ctx (js ''x.png'') (js ''text/plain'') 10 demo_store
     = (Inl (GqlError ''MIME not allowed'' BAD_REQUEST), demo_store)"
    by (simp add: createUploadUrl_def isMimeAllowed_def ALLOWED_MIME_PREFIXES_def demo_ctx_def
        js_def)
  have bad2: "createUploadUrl demo_env demo_ctx (js ''x.png'') (js ''image/png'') 0 demo_store
     = (Inl (GqlError ''Invalid size'' BAD_REQUEST), demo_store)"
    "createUploadUrl demo_env demo_ctx (js ''x.png'') (js ''image/png'') 31457281 demo_store
     = (Inl (GqlError ''Invalid size'' BAD_REQUEST), demo_store)"
    by (simp_all add: createUploadUrl_def isMimeAllowed_def ALLOWED_MIME_PREFIXES_def demo_ctx_def
        js_def MAX_SIZE_BYTES_def)
  from good bad1 bad2 show ?thesis by blast
qed

subsection \<open>C7: the sanitised file name\<close>

text \<open>The result has at most 200 code units, whatever the normaliser does.\<close>

lemma safeFilename_length: "length (safeFilename nfkc fname) \<le> 200"
  by (simp add: safeFilename_def)

text \<open>
  Claim C7 at the file name U+FF0F \<open>etc\<close>. The replacement runs before the
  normalisation: the fullwidth solidus is no separator when the separators are replaced,
  and NFKC then turns it into \<open>/\<close>. The sanitised name is \<open>/etc\<close>, and \<open>createUploadUrl\<close>
  stores it as the file name of the new asset.
\<close>

theorem safeFilename_fullwidth_solidus:
  "safeFilename nfkc_fullwidth [0xFF0F, 0x65, 0x74, 0x63] = js ''/etc''
   \<and> 0x2F \<in> set (safeFilename nfkc_fullwidth [0xFF0F, 0x65, 0x74, 0x63])
   \<and> map filename (asset (snd (createUploadUrl demo_env demo_ctx [0xFF0F, 0x65, 0x74, 0x63]
         (js ''image/png'') 3 demo_store))) = [js ''f.png'', js ''/etc'']"
  by (simp add: safeFilename_def nfkc_fullwidth_def js_def createUploadUrl_def
      isMimeAllowed_def ALLOWED_MIME_PREFIXES_def MAX_SIZE_BYTES_def insert_asset_def
      insert_ticket_def demo_env_def demo_ctx_def demo_store_def demo_asset_def Let_def)

subsection \<open>C8: the page of a listing\<close>

lemma page_limit_range: "1 \<le> page_limit first \<and> page_limit first \<le> 50"
  by (simp add: page_limit_def split: option.splits)

lemma page_limit_eq:
  "page_limit first = (case first of None \<Rightarrow> 20 | Some n \<Rightarrow> if 1 \<le> n \<and> n \<le> 50 then n else 20)"
  by (auto simp: page_limit_def split: option.splits)

text \<open>The page cut out of the over-fetched rows.\<close>

lemma overfetch_page:
  assumes "0 \<le> l"
  shows "(if int (length (take (nat (l + 1)) rows)) > l
          then take (nat l) (take (nat (l + 1)) rows) else take (nat (l + 1)) rows)
         = take (nat l) rows"
    and "int (length (take (nat (l + 1)) rows)) > l \<longleftrightarrow> int (length rows) > l"
  using assms by (auto simp: min_def)

lemma myAssets_result:
  assumes "userId ctx = Some uid" and "uid \<noteq> []"
    and "\<not> store_error e AssetSelect" and "query_filter e after q = Some ok"
  shows "myAssets e ctx after first q s =
     (let rows = rev (sort_key created_at (filter ok (asset s)));
          slice = take (nat (page_limit first)) rows
      in Inr \<lparr>edges = map (\<lambda>row. \<lparr>cursor = created_at row, node = asset_node_of row\<rparr>) slice,
               pageInfo = \<lparr>endCursor = (if slice \<noteq> [] then Some (created_at (last slice)) else None),
                           hasNextPage = (int (length rows) > page_limit first)\<rparr>\<rparr>)"
proof -
  let ?l = "page_limit first"
  let ?rows = "rev (sort_key created_at (filter ok (asset s)))"
  let ?data = "take (nat (?l + 1)) ?rows"
  have l: "0 \<le> ?l"
    using page_limit_range [of first] by simp
  have rq: "run_query e s after q (?l + 1) = Some ?data"
    using assms(3,4) by (simp add: run_query_def)
  have hn: "(int (length ?data) > ?l) = (int (length ?rows) > ?l)"
    by (rule overfetch_page(2) [OF l])
  have sl: "(if int (length ?rows) > ?l then take (nat ?l) ?data else ?data) = take (nat ?l) ?rows"
    using overfetch_page(1) [OF l, of ?rows] unfolding hn .
  have au: "\<not> falsy (userId ctx)"
    using assms(1,2) by (simp add: falsy_def)
  show ?thesis
    unfolding myAssets_def Let_def rq option.case hn sl if_not_P [OF au] ..
qed

text \<open>
  Claim C8, as the code has it. For an authenticated caller whose query the store
  answers: the page size is \<open>first\<close> when \<open>1 \<le> first \<le> 50\<close> and 20 otherwise (absent, not
  positive, or above 50); at most that many edges are returned, the newest matching rows
  in order; and \<open>hasNextPage\<close> holds exactly when more rows than the page size match the
  filters of the query.
\<close>

theorem myAssets_page:
  assumes "userId ctx = Some uid" and "uid \<noteq> []"
    and "\<not> store_error e AssetSelect" and "query_filter e after q = Some ok"
  shows "thrown (myAssets e ctx after first q s) = None
       \<and> page_limit first
           = (case first of None \<Rightarrow> 20 | Some n \<Rightarrow> if 1 \<le> n \<and> n \<le> 50 then n else 20)
       \<and> int (length (edges (projr (myAssets e ctx after first q s)))) \<le> page_limit first
       \<and> (hasNextPage (pageInfo (projr (myAssets e ctx after first q s)))
            \<longleftrightarrow> int (length (filter ok (asset s))) > page_limit first)
       \<and> map cursor (edges (projr (myAssets e ctx after first q s)))
           = take (nat (page_limit first))
               (map created_at (rev (sort_key created_at (filter ok (asset s)))))"
proof -
  let ?l = "page_limit first"
  let ?rows = "rev (sort_key created_at (filter ok (asset s)))"
  note r = myAssets_result [OF assms, of first s, unfolded Let_def]
  have l: "0 \<le> ?l"
    using page_limit_range [of first] by simp
  have 1: "thrown (myAssets e ctx after first q s) = None"
    by (simp add: r thrown_def)
  have 2: "int (length (edges (projr (myAssets e ctx after first q s)))) \<le> ?l"
    using l by (simp add: r)
  have 3: "hasNextPage (pageInfo (projr (myAssets e ctx after first q s)))
            \<longleftrightarrow> int (length (filter ok (asset s))) > ?l"
    by (simp add: r)
  have 4: "map cursor (edges (projr (myAssets e ctx after first q s)))
           = take (nat ?l) (map created_at ?rows)"
    by (simp add: r take_map o_def)
  from 1 2 3 4 page_limit_eq [of first] show ?thesis
    by blast
qed

lemma many_assets_length: "length (asset many_assets) = 21"
  by (simp add: many_assets_def)

text \<open>
  Claim C8 as stated fails at \<open>first = 100\<close>: the page size is 20, not 50. Of 21 assets
  the call returns 20 and reports a next page; a page of 50 would hold all 21.
\<close>

theorem myAssets_first_100_counterexample:
  "page_limit (Some 100) = 20
   \<and> length (asset many_assets) = 21
   \<and> thrown (myAssets demo_env demo_ctx None (Some 100) None many_assets) = None
   \<and> length (edges (projr (myAssets demo_env demo_ctx None (Some 100) None many_assets))) = 20
   \<and> hasNextPage (pageInfo (projr (myAssets demo_env demo_ctx None (Some 100) None many_assets)))"
proof -
  have auth: "userId demo_ctx = Some (js ''u1'')" "js ''u1'' \<noteq> []"
    by (simp_all add: demo_ctx_def js_def)
  have q: "\<not> store_error demo_env AssetSelect"
    "query_filter demo_env None None = Some (\<lambda>r. True)"
    by (simp_all add: demo_env_def query_filter_def falsy_def)
  have l: "page_limit (Some 100) = 20"
    by (simp add: page_limit_def)
  show ?thesis
    by (simp add: myAssets_result [OF auth q] Let_def thrown_def l many_assets_length)
qed

text \<open>The two newest of the 21 assets, for \<open>first = 2\<close>.\<close>

theorem myAssets_page_witness:
  "thrown (myAssets demo_env demo_ctx None (Some 2) None many_assets) = None
   \<and> page_limit (Some 2) = 2
   \<and> map cursor (edges (projr (myAssets demo_env demo_ctx None (Some 2) None many_assets)))
       = [20, 19]
   \<and> hasNextPage (pageInfo (projr (myAssets demo_env demo_ctx None (Some 2) None many_assets)))"
proof -
  have auth: "userId demo_ctx = Some (js ''u1'')" "js ''u1'' \<noteq> []"
    by (simp_all add: demo_ctx_def js_def)
  have q: "\<not> store_error demo_env AssetSelect"
    "query_filter demo_env None None = Some (\<lambda>r. True)"
    by (simp_all add: demo_env_def query_filter_def falsy_def)
  have rows: "map created_at (rev (sort_key created_at (asset many_assets)))
      = map int (rev [0..<21])"
    unfolding many_assets_def by code_simp
  have tk: "take 2 (map int (rev [0..<21])) = [20, 19]"
    by code_simp
  show ?thesis
    using myAssets_page [OF auth q, of "Some 2" many_assets]
    by (simp add: many_assets_length rows tk)
qed

subsection \<open>C9: sharing with oneself\<close>

text \<open>
  Claim C9. A \<open>shareAsset\<close> call that passes the ownership and version checks and whose
  target address resolves to the caller returns the asset at its stored version and
  leaves the whole store as it was: no share row is written and the asset row is not
  touched.
\<close>

theorem self_share_noop:
  assumes "userId ctx = Some uid" and "uid \<noteq> []"
    and "select_asset e s assetId = Some a" and "owner_id a = uid" and "version a = ver"
    and "findUserIdByEmail e toEmail = Some uid"
  shows "shareAsset e ctx assetId toEmail canDownload ver s = (Inr (asset_node_of a), s)
       \<and> node_version (asset_node_of a) = ver"
  using assms
  by (simp add: shareAsset_def falsy_def asset_node_of_def)

text \<open>User \<open>u1\<close> of the demo directory shares with the own address, in another case.\<close>

theorem self_share_noop_witness:
  "shareAsset demo_env demo_ctx (js ''a1'') (js ''a@X'') True 1 demo_store
     = (Inr (asset_node_of demo_asset), demo_store)
   \<and> findUserIdByEmail demo_env (js ''a@X'') = userId demo_ctx"
proof -
  have auth: "userId demo_ctx = Some (js ''u1'')" "js ''u1'' \<noteq> []"
    by (simp_all add: demo_ctx_def js_def)
  have a: "select_asset demo_env demo_store (js ''a1'') = Some demo_asset"
    "owner_id demo_asset = js ''u1''" "version demo_asset = 1"
    by (simp_all add: select_asset_def single_def demo_defs)
  have u: "findUserIdByEmail demo_env (js ''a@X'') = Some (js ''u1'')"
    by (simp add: findUserIdByEmail_def ascii_lower_def demo_defs)
  show ?thesis
    using self_share_noop [OF auth a u, of True] auth(1) u by simp
qed

subsection \<open>C10: download links\<close>

lemma select_asset_restatus:
  "select_asset e (s\<lparr>asset := map (\<lambda>r. r\<lparr>status := st\<rparr>) (asset s)\<rparr>) i
   = map_option (\<lambda>r. r\<lparr>status := st\<rparr>) (select_asset e s i)"
  by (simp add: select_asset_def single_def filter_map o_def split: list.splits)

text \<open>
  Claim C10. For an authenticated caller who owns an existing asset, \<open>getDownloadUrl\<close>
  returns the URL the object store signs for the asset's path with an expiry of 120
  seconds, and the status of the asset plays no part: with the status column set to any
  value the call returns the same URL.
\<close>

theorem download_url_any_status:
  assumes "userId ctx = Some uid" and "uid \<noteq> []"
    and "select_asset e s assetId = Some a" and "owner_id a = uid"
    and "createSignedUrl e (storage_path a) 120 = Some url"
  shows "getDownloadUrl e ctx assetId s = (Inr url, s)
       \<and> getDownloadUrl e ctx assetId (s\<lparr>asset := map (\<lambda>r. r\<lparr>status := st\<rparr>) (asset s)\<rparr>)
           = (Inr url, s\<lparr>asset := map (\<lambda>r. r\<lparr>status := st\<rparr>) (asset s)\<rparr>)"
  using assms
  by (simp add: getDownloadUrl_def falsy_def select_asset_restatus)

text \<open>The demo asset, still \<open>Uploading\<close>, and the same asset marked \<open>Corrupt\<close>.\<close>

theorem download_url_any_status_witness:
  "getDownloadUrl demo_env demo_ctx (js ''a1'') demo_store = (Inr (js ''dl:p1''), demo_store)
   \<and> status demo_asset = Uploading
   \<and> getDownloadUrl demo_env demo_ctx (js ''a1'')
        (demo_store\<lparr>asset := [demo_asset\<lparr>status := Corrupt\<rparr>]\<rparr>)
      = (Inr (js ''dl:p1''), demo_store\<lparr>asset := [demo_asset\<lparr>status := Corrupt\<rparr>]\<rparr>)"
proof -
  have auth: "userId demo_ctx = Some (js ''u1'')" "js ''u1'' \<noteq> []"
    by (simp_all add: demo_ctx_def js_def)
  have a: "select_asset demo_env demo_store (js ''a1'') = Some demo_asset"
    "owner_id demo_asset = js ''u1''"
    by (simp_all add: select_asset_def single_def demo_defs)
  have u: "createSignedUrl demo_env (storage_path demo_asset) 120 = Some (js ''dl:p1'')"
    by (simp add: demo_defs)
  have st: "status demo_asset = Uploading" "asset demo_store = [demo_asset]"
    by (simp_all add: demo_defs)
  show ?thesis
    using download_url_any_status [OF auth a u, of Corrupt] st by simp
qed

end
